theory Spec2Isabelle
  imports Complex_Main "HOL-Library.Sublist" "HOL-Library.Multiset"
begin

section \<open>Conventions of the embedding\<close>

text \<open>
  The program is a Python module with three agents. The embedding covers the decision
  tree (\<open>DynamicDecisionAgent\<close>), the answer handler of the application
  (\<open>CareerAdvisorApp.process_answer\<close>) and the course search, ranking and caching of
  \<open>RealCourseSearchAgent\<close>.

  \<^item> Python \<open>float\<close> and \<open>int\<close> values are exact rationals (\<open>rat\<close>) and integers: the
    decimal literals of the source (\<open>0.7\<close>, \<open>1.5\<close>) are the rationals they denote, and the
    rounding error of binary floating point is outside the model.
  \<^item> Python \<open>str\<close> is \<open>string\<close>; the character classes below are those of ASCII text.
  \<^item> A \<open>dict\<close> read in insertion order is an association list; a \<open>dict\<close> used as a store
    is a map.
  \<^item> An exception is the \<open>Inl\<close> of a sum.
\<close>

datatype error = ValueError | KeyError

section \<open>The decision tree\<close>

text \<open>
  A node of the tree is a dict with a question and, unless it is a final node, a dict of
  answers; the answers are visited in insertion order. The pictograph that opens each
  question in the source is left out of the question strings.
\<close>

record answer =
  threshold :: rat
  next_node :: string

record node =
  question :: string
  answers :: "(string \<times> answer) list option"

type_synonym tree = "(string \<times> node) list"

definition get_default_tree :: tree where
  "get_default_tree =
    [(''Math'', \<lparr>question = ''Rate your Math skills (0.0 - 1.0):'',
        answers = Some [(''high'', \<lparr>threshold = 7/10, next_node = ''Math_High''\<rparr>),
                        (''medium'', \<lparr>threshold = 4/10, next_node = ''Math_Med''\<rparr>),
                        (''low'', \<lparr>threshold = 0, next_node = ''Math_Low''\<rparr>)]\<rparr>),
     (''Math_High'', \<lparr>question = ''Rate your Programming skills (0.0 - 1.0):'',
        answers = Some [(''high'', \<lparr>threshold = 5/10, next_node = ''HighProg''\<rparr>),
                        (''low'', \<lparr>threshold = 0, next_node = ''HighPhys''\<rparr>)]\<rparr>),
     (''HighProg'', \<lparr>question = ''Rate your interest in Data/AI (0.0 - 1.0):'',
        answers = Some [(''high'', \<lparr>threshold = 6/10, next_node = ''Data Scientist''\<rparr>),
                        (''low'', \<lparr>threshold = 0, next_node = ''Software Engineer''\<rparr>)]\<rparr>),
     (''HighPhys'', \<lparr>question = ''Rate your Physics/Engineering knowledge (0.0 - 1.0):'',
        answers = Some [(''low'', \<lparr>threshold = 6/10, next_node = ''Research Scientist''\<rparr>),
                        (''high'', \<lparr>threshold = 0, next_node = ''Engineer''\<rparr>)]\<rparr>),
     (''Math_Med'', \<lparr>question = ''Rate your Design/Creativity skills (0.0 - 1.0):'',
        answers = Some [(''high'', \<lparr>threshold = 5/10, next_node = ''MedDesign''\<rparr>),
                        (''low'', \<lparr>threshold = 0, next_node = ''MedBio''\<rparr>)]\<rparr>),
     (''MedDesign'', \<lparr>question = ''Rate your Communication/Teamwork skills (0.0 - 1.0):'',
        answers = Some [(''high'', \<lparr>threshold = 6/10, next_node = ''UI/UX Designer''\<rparr>),
                        (''low'', \<lparr>threshold = 0, next_node = ''Graphic Designer''\<rparr>)]\<rparr>),
     (''MedBio'', \<lparr>question = ''Rate your Biology/Health knowledge (0.0 - 1.0):'',
        answers = Some [(''high'', \<lparr>threshold = 6/10, next_node = ''Healthcare Specialist''\<rparr>),
                        (''low'', \<lparr>threshold = 0, next_node = ''Project Manager''\<rparr>)]\<rparr>),
     (''Math_Low'', \<lparr>question = ''Rate your Communication/People skills (0.0 - 1.0):'',
        answers = Some [(''high'', \<lparr>threshold = 5/10, next_node = ''LowComm''\<rparr>),
                        (''low'', \<lparr>threshold = 0, next_node = ''LowHands''\<rparr>)]\<rparr>),
     (''LowComm'', \<lparr>question = ''Rate your Leadership ability (0.0 - 1.0):'',
        answers = Some [(''high'', \<lparr>threshold = 6/10, next_node = ''Manager / HR Specialist''\<rparr>),
                        (''low'', \<lparr>threshold = 0, next_node = ''Journalist / Public Speaker''\<rparr>)]\<rparr>),
     (''LowHands'', \<lparr>question = ''Rate your Practical/Technical skills (0.0 - 1.0):'',
        answers = Some [(''high'', \<lparr>threshold = 6/10, next_node = ''Technician''\<rparr>),
                        (''low'', \<lparr>threshold = 0, next_node = ''Sales Assistant''\<rparr>)]\<rparr>)]"

text \<open>
  The loop of \<open>navigate_tree\<close> over \<open>node["answers"].items()\<close>: the first answer whose
  threshold the input reaches decides; \<open>None\<close> when the loop runs to its end.
\<close>

fun first_answer :: "rat \<Rightarrow> (string \<times> answer) list \<Rightarrow> string option" where
  "first_answer user_input [] = None"
| "first_answer user_input ((answer_key, a) # rest) =
     (if user_input \<ge> threshold a then Some (next_node a)
      else first_answer user_input rest)"

definition navigate_tree :: "tree \<Rightarrow> string \<Rightarrow> rat \<Rightarrow> string" where
  "navigate_tree t current_node user_input =
     (case map_of t current_node of
        None \<Rightarrow> current_node
      | Some n \<Rightarrow>
          (case answers n of
             None \<Rightarrow> current_node
           | Some ans \<Rightarrow>
               (case first_answer user_input ans of
                  Some nxt \<Rightarrow> nxt
                | None \<Rightarrow> current_node)))"

section \<open>The answer handler\<close>

text \<open>
  \<open>process_answer\<close> reads the entry field, converts it with \<open>float\<close> (the argument
  \<open>entry\<close> is the converted value, \<open>None\<close> when the conversion raised \<open>ValueError\<close>),
  checks the range, records the skill and moves the current node. Every \<open>ValueError\<close> is
  caught by the handler itself and shown in an error dialog; the returned \<open>Inl\<close> is that
  report. The widgets redrawn by \<open>show_question\<close> are not part of the state.
\<close>

record app_state =
  current_node :: string
  user_skills :: "string \<rightharpoonup> rat"

definition extract_skill_name :: "string \<Rightarrow> string" where
  "extract_skill_name n =
     (case map_of
        [(''Math'', ''Mathematics''),
         (''Math_High'', ''Advanced Math''),
         (''Math_Med'', ''Intermediate Math''),
         (''Math_Low'', ''Basic Math''),
         (''HighProg'', ''Programming''),
         (''HighPhys'', ''Physics/Engineering''),
         (''MedDesign'', ''Design/Creativity''),
         (''MedBio'', ''Biology/Health''),
         (''LowComm'', ''Communication''),
         (''LowHands'', ''Technical Skills'')] n of
        Some s \<Rightarrow> s
      | None \<Rightarrow> ''General Skills'')"

definition process_answer :: "tree \<Rightarrow> rat option \<Rightarrow> app_state \<Rightarrow> (error + unit) \<times> app_state" where
  "process_answer t entry st =
     (case entry of
        None \<Rightarrow> (Inl ValueError, st)
      | Some rating \<Rightarrow>
          if \<not> (0 \<le> rating \<and> rating \<le> 1) then (Inl ValueError, st)
          else
            let skill_name = extract_skill_name (current_node st);
                st1 = st\<lparr>user_skills := (user_skills st)(skill_name \<mapsto> rating)\<rparr>;
                st2 = st1\<lparr>current_node := navigate_tree t (current_node st1) rating\<rparr>
            in (Inr (), st2))"

section \<open>Strings\<close>

text \<open>
  The string methods the search agent uses, on ASCII text: \<open>str.lower\<close>,
  \<open>str.title\<close>, \<open>str.split\<close> without argument, \<open>str.strip\<close>, and the substring
  test \<open>a in b\<close>, which is \<^const>\<open>sublist\<close>. White space is what \<open>str.isspace\<close> and
  the pattern \<open>\s\<close> accept: tab, line feed, vertical tab, form feed, carriage return, the
  four separators 28 to 31, and the space. A word character is what \<open>\w\<close> accepts: a
  letter, a digit or the underscore.
\<close>

definition is_upper :: "char \<Rightarrow> bool" where
  "is_upper c = (65 \<le> (of_char c :: nat) \<and> (of_char c :: nat) \<le> 90)"

definition is_lower :: "char \<Rightarrow> bool" where
  "is_lower c = (97 \<le> (of_char c :: nat) \<and> (of_char c :: nat) \<le> 122)"

definition is_digit :: "char \<Rightarrow> bool" where
  "is_digit c = (48 \<le> (of_char c :: nat) \<and> (of_char c :: nat) \<le> 57)"

definition is_alnum :: "char \<Rightarrow> bool" where
  "is_alnum c = (is_upper c \<or> is_lower c \<or> is_digit c)"

definition is_word :: "char \<Rightarrow> bool" where
  "is_word c = (is_alnum c \<or> c = CHR ''_'')"

definition is_space :: "char \<Rightarrow> bool" where
  "is_space c = ((9 \<le> (of_char c :: nat) \<and> (of_char c :: nat) \<le> 13) \<or>
                 (28 \<le> (of_char c :: nat) \<and> (of_char c :: nat) \<le> 32))"

definition lower_char :: "char \<Rightarrow> char" where
  "lower_char c = (if is_upper c then char_of ((of_char c :: nat) + 32) else c)"

definition upper_char :: "char \<Rightarrow> char" where
  "upper_char c = (if is_lower c then char_of ((of_char c :: nat) - 32) else c)"

definition lower :: "string \<Rightarrow> string" where
  "lower s = map lower_char s"

text \<open>\<open>str.title\<close>: a letter that follows a letter is lower-cased, any other letter is
  upper-cased.\<close>

fun title_from :: "bool \<Rightarrow> string \<Rightarrow> string" where
  "title_from previous_is_cased [] = []"
| "title_from previous_is_cased (c # cs) =
     (if is_upper c \<or> is_lower c
      then (if previous_is_cased then lower_char c else upper_char c) # title_from True cs
      else c # title_from False cs)"

definition title_case :: "string \<Rightarrow> string" where
  "title_case s = title_from False s"

text \<open>\<open>str.split()\<close>: the maximal runs of characters that are not white space.\<close>

fun split_from :: "string \<Rightarrow> string \<Rightarrow> string list" where
  "split_from word [] = (if word = [] then [] else [word])"
| "split_from word (c # cs) =
     (if is_space c then (if word = [] then split_from [] cs else word # split_from [] cs)
      else split_from (word @ [c]) cs)"

definition split :: "string \<Rightarrow> string list" where
  "split s = split_from [] s"

definition strip :: "string \<Rightarrow> string" where
  "strip s = rev (dropWhile is_space (rev (dropWhile is_space s)))"

text \<open>\<open>re.sub(r'[^\w\s]', ' ', s)\<close> and \<open>re.sub(r'\s+', ' ', s)\<close>.\<close>

definition sub_special :: "string \<Rightarrow> string" where
  "sub_special s = map (\<lambda>c. if is_word c \<or> is_space c then c else CHR '' '') s"

fun sub_space_runs :: "bool \<Rightarrow> string \<Rightarrow> string" where
  "sub_space_runs in_run [] = []"
| "sub_space_runs in_run (c # cs) =
     (if is_space c
      then (if in_run then sub_space_runs True cs else CHR '' '' # sub_space_runs True cs)
      else c # sub_space_runs False cs)"

definition clean_title :: "string \<Rightarrow> string" where
  "clean_title t =
     (let cleaned = sub_special t;
          cleaned = sub_space_runs False cleaned
      in strip cleaned)"

section \<open>Courses and their ranking\<close>

text \<open>
  A course is a dict. The keys the ranking reads with \<open>.get\<close> or by subscript may be
  absent and are options; the ranking never reads the others.
\<close>

record course =
  title :: "string option"
  url :: string
  provider :: "string option"
  level :: string
  rating :: "rat option"
  duration :: string
  instructors :: "string list"
  enrollment_count :: "int option"
  price :: "string option"
  language :: string
  score :: rat
  searched_for :: string

text \<open>
  \<open>round(x, ndigits)\<close> rounds to the nearest multiple of \<open>10 ^ - ndigits\<close>, a tie going to
  the even one.
\<close>

definition round_half_even :: "rat \<Rightarrow> int" where
  "round_half_even y =
     (let f = \<lfloor>y\<rfloor>; d = y - of_int f
      in if d < 1/2 then f else if 1/2 < d then f + 1 else if even f then f else f + 1)"

definition round_ndigits :: "rat \<Rightarrow> nat \<Rightarrow> rat" where
  "round_ndigits x ndigits = of_int (round_half_even (x * 10 ^ ndigits)) / 10 ^ ndigits"

definition provider_scores :: "(string \<times> rat) list" where
  "provider_scores =
     [(''YouTube'', 15/10), (''GitHub'', 12/10), (''Career Guidance'', 8/10), (''Skills Academy'', 8/10)]"

definition get_provider_score :: "string \<Rightarrow> rat" where
  "get_provider_score p = (case map_of provider_scores p of Some s \<Rightarrow> s | None \<Rightarrow> 5/10)"

definition calculate_relevance_score :: "course \<Rightarrow> string \<Rightarrow> rat" where
  "calculate_relevance_score c career =
     (let t = lower (case title c of Some s \<Rightarrow> s | None \<Rightarrow> []);
          career_lower = lower career
      in if sublist career_lower t then 2
         else if list_ex (\<lambda>word. sublist word t) (split career_lower) then 15/10
         else 5/10)"

text \<open>The body of the loop of \<open>_rank_courses\<close>; \<open>course["provider"]\<close> raises
  \<open>KeyError\<close> when the key is absent.\<close>

definition score_course :: "course \<Rightarrow> string \<Rightarrow> error + course" where
  "score_course c career =
     (case provider c of
        None \<Rightarrow> Inl KeyError
      | Some p \<Rightarrow>
          let s = 0;
              provider_score = get_provider_score p;
              s = s + provider_score;
              rating_score = (case rating c of Some r \<Rightarrow> r | None \<Rightarrow> 4) * (15/10);
              s = s + rating_score;
              enrollment_score =
                min (of_int (case enrollment_count c of Some n \<Rightarrow> n | None \<Rightarrow> 0) / 50000) 2;
              s = s + enrollment_score;
              price_score = (if price c = Some ''Free'' then 2 else 5/10);
              s = s + price_score;
              relevance_score = calculate_relevance_score c career;
              s = s + relevance_score
          in Inr (c\<lparr>score := round_ndigits s 2\<rparr>))"

fun score_courses :: "course list \<Rightarrow> string \<Rightarrow> error + course list" where
  "score_courses [] career = Inr []"
| "score_courses (c # cs) career =
     (case score_course c career of
        Inl e \<Rightarrow> Inl e
      | Inr c' \<Rightarrow>
          (case score_courses cs career of
             Inl e \<Rightarrow> Inl e
           | Inr scored \<Rightarrow> Inr (c' # scored)))"

text \<open>
  \<open>sorted(xs, key=k, reverse=True)\<close> is stable: it sorts the reversed list in ascending
  order of the key and reverses the result, so equal keys keep their input order.
\<close>

definition sorted_reverse :: "('a \<Rightarrow> rat) \<Rightarrow> 'a list \<Rightarrow> 'a list" where
  "sorted_reverse k xs = rev (sort_key k (rev xs))"

definition rank_courses :: "course list \<Rightarrow> string \<Rightarrow> string \<Rightarrow> error + course list" where
  "rank_courses courses user_level career =
     (if courses = [] then Inr []
      else
        (case score_courses courses career of
           Inl e \<Rightarrow> Inl e
         | Inr scored_courses \<Rightarrow> Inr (sorted_reverse score scored_courses)))"

text \<open>
  The score as the ranking contract words it: the sum of the five sub-scores, before
  rounding.
\<close>

definition contract_score :: "course \<Rightarrow> string \<Rightarrow> rat" where
  "contract_score c career =
     (case map_of provider_scores (case provider c of Some p \<Rightarrow> p | None \<Rightarrow> []) of
        Some s \<Rightarrow> s | None \<Rightarrow> 5/10)
     + (case rating c of Some r \<Rightarrow> r | None \<Rightarrow> 4) * (15/10)
     + min (of_int (case enrollment_count c of Some n \<Rightarrow> n | None \<Rightarrow> 0) / 50000) 2
     + (if price c = Some ''Free'' then 2 else 5/10)
     + (if sublist (lower career) (lower (case title c of Some s \<Rightarrow> s | None \<Rightarrow> [])) then 2
        else if \<exists>w \<in> set (split (lower career)).
                  sublist w (lower (case title c of Some s \<Rightarrow> s | None \<Rightarrow> []))
        then 15/10 else 5/10)"

text \<open>Every field of a course but its score.\<close>

definition other_fields ::
  "course \<Rightarrow> string option \<times> string \<times> string option \<times> string \<times> rat option \<times> string \<times> string list
            \<times> int option \<times> string option \<times> string \<times> string" where
  "other_fields c =
     (title c, url c, provider c, level c, rating c, duration c, instructors c,
      enrollment_count c, price c, language c, searched_for c)"

section \<open>Fallback courses\<close>

definition get_fallback_courses :: "string \<Rightarrow> string \<Rightarrow> course list" where
  "get_fallback_courses career lvl =
     [\<lparr>title = Some (''Introduction to '' @ career @ '' - '' @ title_case lvl @ '' Level''),
       url = ''https://www.youtube.com/results?search_query=career+development'',
       provider = Some ''Career Guidance'',
       level = lvl,
       rating = Some (45/10),
       duration = ''Self-paced'',
       instructors = [''Professional Instructors''],
       enrollment_count = Some 10000,
       price = Some ''Free'',
       language = ''English'',
       score = 0,
       searched_for = ''fallback''\<rparr>,
      \<lparr>title = Some (career @ '' Skills Development Course''),
       url = ''https://www.youtube.com/results?search_query=professional+skills'',
       provider = Some ''Skills Academy'',
       level = lvl,
       rating = Some (43/10),
       duration = ''4-6 weeks'',
       instructors = [''Industry Experts''],
       enrollment_count = Some 15000,
       price = Some ''Free'',
       language = ''English'',
       score = 0,
       searched_for = ''fallback''\<rparr>]"

section \<open>Parsing search results\<close>

text \<open>
  The parsers receive the page a request returned, extract pairs with \<open>re.findall\<close> and
  build a course from each pair that passes their filter. The argument \<open>matches\<close> is the
  list \<open>re.findall\<close> returned. Rating, duration and enrollment of a parsed course are drawn
  from \<open>random\<close>; the argument \<open>rnd\<close> gives the values drawn for the courses built, in
  the order they are built.
\<close>

record draw =
  drawn_rating :: rat
  drawn_hours :: nat
  drawn_enrollment :: int

fun str_nat :: "nat \<Rightarrow> string" where
  "str_nat n =
     (if n < 10 then [char_of (48 + n)] else str_nat (n div 10) @ [char_of (48 + n mod 10)])"

declare str_nat.simps [simp del]

definition youtube_keywords :: "string list" where
  "youtube_keywords = [''tutorial'', ''course'', ''learn'', ''guide'', ''introduction'']"

definition github_keywords :: "string list" where
  "github_keywords = [''learn'', ''tutorial'', ''course'', ''guide'', ''examples'']"

definition youtube_course :: "draw \<Rightarrow> string \<Rightarrow> string \<Rightarrow> string \<Rightarrow> course" where
  "youtube_course d video_id t search_term =
     \<lparr>title = Some (clean_title t),
      url = ''https://www.youtube.com/watch?v='' @ video_id,
      provider = Some ''YouTube'',
      level = ''beginner'',
      rating = Some (drawn_rating d),
      duration = str_nat (drawn_hours d) @ '' hours'',
      instructors = [''YouTube Instructor''],
      enrollment_count = Some (drawn_enrollment d),
      price = Some ''Free'',
      language = ''English'',
      score = 0,
      searched_for = search_term\<rparr>"

fun parse_youtube_matches :: "(nat \<Rightarrow> draw) \<Rightarrow> nat \<Rightarrow> string \<Rightarrow> (string \<times> string) list \<Rightarrow> course list" where
  "parse_youtube_matches rnd i search_term [] = []"
| "parse_youtube_matches rnd i search_term ((video_id, t) # ms) =
     (if length t > 15 \<and> list_ex (\<lambda>keyword. sublist keyword (lower t)) youtube_keywords
      then youtube_course (rnd i) video_id t search_term
             # parse_youtube_matches rnd (Suc i) search_term ms
      else parse_youtube_matches rnd i search_term ms)"

definition parse_youtube_results :: "(nat \<Rightarrow> draw) \<Rightarrow> (string \<times> string) list \<Rightarrow> string \<Rightarrow> course list" where
  "parse_youtube_results rnd matches search_term =
     parse_youtube_matches rnd 0 search_term (take 3 matches)"

definition github_course :: "draw \<Rightarrow> string \<Rightarrow> string \<Rightarrow> string \<Rightarrow> course" where
  "github_course d repo_path t search_term =
     \<lparr>title = Some (''GitHub: '' @ t),
      url = ''https://github.com'' @ repo_path,
      provider = Some ''GitHub'',
      level = ''intermediate'',
      rating = Some (drawn_rating d),
      duration = ''Self-paced'',
      instructors = [''Open Source Community''],
      enrollment_count = Some (drawn_enrollment d),
      price = Some ''Free'',
      language = ''English'',
      score = 0,
      searched_for = search_term\<rparr>"

fun parse_github_matches :: "(nat \<Rightarrow> draw) \<Rightarrow> nat \<Rightarrow> string \<Rightarrow> (string \<times> string) list \<Rightarrow> course list" where
  "parse_github_matches rnd i search_term [] = []"
| "parse_github_matches rnd i search_term ((repo_path, t) # ms) =
     (if list_ex (\<lambda>keyword. sublist keyword (lower t)) github_keywords
      then github_course (rnd i) repo_path t search_term
             # parse_github_matches rnd (Suc i) search_term ms
      else parse_github_matches rnd i search_term ms)"

definition parse_github_results :: "(nat \<Rightarrow> draw) \<Rightarrow> (string \<times> string) list \<Rightarrow> string \<Rightarrow> course list" where
  "parse_github_results rnd matches search_term =
     parse_github_matches rnd 0 search_term (take 2 matches)"

section \<open>Search terms\<close>

definition career_keywords :: "(string \<times> string list) list" where
  "career_keywords =
     [(''Data Scientist'', [''data science'', ''machine learning'', ''python data analysis'', ''artificial intelligence'']),
      (''Software Engineer'', [''programming'', ''web development'', ''python programming'', ''javascript tutorial'']),
      (''UI/UX Designer'', [''ui design'', ''ux design'', ''user experience'', ''figma tutorial'']),
      (''Graphic Designer'', [''graphic design'', ''photoshop tutorial'', ''illustrator course'', ''digital design'']),
      (''Project Manager'', [''project management'', ''agile methodology'', ''scrum master'', ''leadership skills'']),
      (''Healthcare Specialist'', [''healthcare'', ''medical education'', ''public health'', ''biology basics'']),
      (''Research Scientist'', [''research methods'', ''data analysis'', ''academic research'', ''scientific methods'']),
      (''Engineer'', [''engineering'', ''mechanical engineering'', ''electrical engineering'', ''physics concepts'']),
      (''Manager / HR Specialist'', [''human resources'', ''management skills'', ''leadership'', ''team management'']),
      (''Journalist / Public Speaker'', [''journalism'', ''public speaking'', ''communication skills'', ''writing skills'']),
      (''Technician'', [''technical skills'', ''it support'', ''computer repair'', ''hardware tutorial'']),
      (''Sales Assistant'', [''sales training'', ''marketing basics'', ''customer service'', ''communication skills''])]"

definition level_keywords :: "(string \<times> string list) list" where
  "level_keywords =
     [(''beginner'', [''beginner'', ''fundamentals'', ''basics'', ''introduction'', ''getting started'']),
      (''intermediate'', [''intermediate'', ''advanced'', ''professional'', ''deep dive'']),
      (''advanced'', [''advanced'', ''expert'', ''master'', ''professional''])]"

text \<open>The two nested loops that fill \<open>search_terms\<close>.\<close>

definition combine_terms :: "string list \<Rightarrow> string list \<Rightarrow> string list" where
  "combine_terms base_terms level_terms =
     concat (map (\<lambda>base. map (\<lambda>level_term. base @ '' '' @ level_term) (take 1 level_terms) @ [base])
                 (take 2 base_terms))"

text \<open>
  The function ends with \<open>list(set(search_terms))\<close>. The order in which a Python set of
  strings is iterated follows the hashes of the strings, which the interpreter salts anew
  in each process; the argument \<open>set_iteration\<close> is that order. All that is known of it is
  \<open>set_iteration_ok\<close>: it lists each element of the set once.
\<close>

definition set_iteration_ok :: "(string list \<Rightarrow> string list) \<Rightarrow> bool" where
  "set_iteration_ok set_iteration =
     (\<forall>xs. distinct (set_iteration xs) \<and> set (set_iteration xs) = set xs)"

definition get_search_terms :: "(string list \<Rightarrow> string list) \<Rightarrow> string \<Rightarrow> string \<Rightarrow> string list" where
  "get_search_terms set_iteration career lvl =
     (let base_terms = (case map_of career_keywords career of Some ts \<Rightarrow> ts | None \<Rightarrow> [lower career]);
          level_terms = (case map_of level_keywords lvl of Some ts \<Rightarrow> ts | None \<Rightarrow> []);
          search_terms = combine_terms base_terms level_terms
      in set_iteration search_terms)"

section \<open>Searching and caching\<close>

text \<open>
  What a call of \<open>search_courses\<close> takes from outside the program: the three readings of
  \<open>datetime.now()\<close> (in microseconds), in \<open>_is_cache_too_old\<close>, in \<open>_is_cache_valid\<close> and
  when the result is stored; for each search term the pairs found in the page of each
  provider, \<open>None\<close> when the request raised; the values drawn from \<open>random\<close>; and the
  iteration order of sets.
\<close>

record world =
  now_too_old :: int
  now_valid :: int
  now_store :: int
  youtube_matches :: "string \<Rightarrow> (string \<times> string) list option"
  youtube_draws :: "string \<Rightarrow> nat \<Rightarrow> draw"
  github_matches :: "string \<Rightarrow> (string \<times> string) list option"
  github_draws :: "string \<Rightarrow> nat \<Rightarrow> draw"
  set_iteration :: "string list \<Rightarrow> string list"

record cache_data =
  courses :: "course list"
  timestamp :: int

type_synonym course_cache = "string \<rightharpoonup> cache_data"

definition timedelta_weeks :: "int \<Rightarrow> int" where
  "timedelta_weeks n = n * 7 * 24 * 3600 * 1000000"

text \<open>\<open>self.cache_expiry\<close> is assigned once, in \<open>__init__\<close>.\<close>

definition cache_expiry :: int where
  "cache_expiry = timedelta_weeks 1"

definition is_cache_too_old :: "int \<Rightarrow> course_cache \<Rightarrow> string \<Rightarrow> bool" where
  "is_cache_too_old now cache cache_key =
     (case cache cache_key of
        Some cache_data \<Rightarrow> (let cache_age = now - timestamp cache_data in cache_age > timedelta_weeks 1)
      | None \<Rightarrow> False)"

definition is_cache_valid :: "int \<Rightarrow> course_cache \<Rightarrow> string \<Rightarrow> bool" where
  "is_cache_valid now cache cache_key =
     (case cache cache_key of
        Some cache_data \<Rightarrow> (let time_diff = now - timestamp cache_data in time_diff < cache_expiry)
      | None \<Rightarrow> False)"

text \<open>A request that raises is caught in the loop, which goes on with the next one.\<close>

definition search_youtube :: "world \<Rightarrow> string \<Rightarrow> string \<Rightarrow> course list" where
  "search_youtube w career lvl =
     concat (map (\<lambda>search_term. case youtube_matches w search_term of
                            None \<Rightarrow> []
                          | Some matches \<Rightarrow> parse_youtube_results (youtube_draws w search_term) matches search_term)
                 (take 2 (get_search_terms (set_iteration w) career lvl)))"

definition search_github :: "world \<Rightarrow> string \<Rightarrow> string \<Rightarrow> course list" where
  "search_github w career lvl =
     concat (map (\<lambda>search_term. case github_matches w search_term of
                            None \<Rightarrow> []
                          | Some matches \<Rightarrow> parse_github_results (github_draws w search_term) matches search_term)
                 (take 1 (get_search_terms (set_iteration w) career lvl)))"

text \<open>Steps 1 to 3 of \<open>search_courses\<close>: the pool handed to the ranking.\<close>

definition gather_courses :: "world \<Rightarrow> string \<Rightarrow> string \<Rightarrow> course list" where
  "gather_courses w career user_level =
     (let all_courses = [];
          youtube_courses = search_youtube w career user_level;
          all_courses = all_courses @ youtube_courses;
          github_courses = search_github w career user_level;
          all_courses = all_courses @ github_courses
      in if length all_courses < 20
         then all_courses @ get_fallback_courses career user_level
         else all_courses)"

text \<open>
  The first two statements of \<open>search_courses\<close>: an entry that is too old is deleted, then
  an entry that is still valid is returned. The result is the store after the deletion and
  the courses of the valid entry, if there is one.
\<close>

definition cache_lookup :: "world \<Rightarrow> course_cache \<Rightarrow> string \<Rightarrow> course_cache \<times> course list option" where
  "cache_lookup w cache cache_key =
     (let cache = (if is_cache_too_old (now_too_old w) cache cache_key
                   then cache(cache_key := None) else cache)
      in if is_cache_valid (now_valid w) cache cache_key
         then (cache, map_option courses (cache cache_key))
         else (cache, None))"

text \<open>The last assignment to the store.\<close>

definition cache_store :: "course_cache \<Rightarrow> string \<Rightarrow> course list \<Rightarrow> int \<Rightarrow> course_cache" where
  "cache_store cache cache_key top_courses now =
     cache(cache_key \<mapsto> \<lparr>courses = top_courses, timestamp = now\<rparr>)"

definition search_courses :: "world \<Rightarrow> string \<Rightarrow> string \<Rightarrow> course_cache \<Rightarrow> (error + course list) \<times> course_cache" where
  "search_courses w career user_level cache =
     (let cache_key = career @ ''_'' @ user_level
      in case cache_lookup w cache cache_key of
           (cache, Some cached) \<Rightarrow> (Inr cached, cache)
         | (cache, None) \<Rightarrow>
             (case rank_courses (gather_courses w career user_level) user_level career of
                Inl e \<Rightarrow> (Inl e, cache)
              | Inr ranked_courses \<Rightarrow>
                  let top_courses = take 5 ranked_courses
                  in (Inr top_courses, cache_store cache cache_key top_courses (now_store w))))"

text \<open>
  The world in which no provider can be reached: every request raises, and every reading
  of the clock gives the same instant.
\<close>

definition offline_world :: "int \<Rightarrow> world" where
  "offline_world now =
     \<lparr>now_too_old = now, now_valid = now, now_store = now,
      youtube_matches = (\<lambda>search_term. None),
      youtube_draws = (\<lambda>search_term i. \<lparr>drawn_rating = 42/10, drawn_hours = 1, drawn_enrollment = 5000\<rparr>),
      github_matches = (\<lambda>search_term. None),
      github_draws = (\<lambda>search_term i. \<lparr>drawn_rating = 4, drawn_hours = 1, drawn_enrollment = 100\<rparr>),
      set_iteration = remdups\<rparr>"

section \<open>Navigation\<close>

lemma first_answer_None:
  "first_answer r es = None \<longleftrightarrow> (\<forall>e \<in> set es. \<not> threshold (snd e) \<le> r)"
  by (induction r es rule: first_answer.induct) simp_all

lemma first_answer_index:
  "i < length es \<Longrightarrow> threshold (snd (es ! i)) \<le> r \<Longrightarrow>
   (\<forall>j < i. \<not> threshold (snd (es ! j)) \<le> r) \<Longrightarrow>
   first_answer r es = Some (next_node (snd (es ! i)))"
proof (induction es arbitrary: i)
  case Nil
  then show ?case by simp
next
  case (Cons e es)
  obtain k a where e: "e = (k, a)" by (cases e)
  show ?case
  proof (cases i)
    case 0
    with Cons.prems e show ?thesis by simp
  next
    case (Suc i')
    from Cons.prems(3) Suc have "\<not> threshold (snd ((e # es) ! 0)) \<le> r" by blast
    hence no: "\<not> threshold a \<le> r" using e by simp
    have "\<forall>j < i'. \<not> threshold (snd (es ! j)) \<le> r"
    proof (intro allI impI)
      fix j assume "j < i'"
      hence "Suc j < i" using Suc by simp
      with Cons.prems(3) have "\<not> threshold (snd ((e # es) ! Suc j)) \<le> r" by blast
      thus "\<not> threshold (snd (es ! j)) \<le> r" by simp
    qed
    with Cons.prems Suc have "first_answer r es = Some (next_node (snd (es ! i')))"
      by (intro Cons.IH) simp_all
    with no e Suc show ?thesis by simp
  qed
qed

lemma default_tree_Math:
  "map_of get_default_tree ''Math'' = Some (snd (get_default_tree ! 0))"
  by (simp add: get_default_tree_def)

text \<open>
  C2. A node that is not in the tree, or has no answers, is returned unchanged. Otherwise
  the answers are tried in their declared order and the \<open>next\<close> of the first one whose
  threshold is at most the rating is returned; when none is, the node is returned
  unchanged. On the default tree, Math at 0.8 leads to Math_High, Math_High at 0.9 to
  HighProg, and HighProg at 0.7 to Data Scientist. The rule holds for every rating, in
  particular for those in [0, 1].
\<close>

theorem navigate_tree_first_match:
  "(map_of t cur = None \<longrightarrow> navigate_tree t cur r = cur) \<and>
   (\<forall>n. map_of t cur = Some n \<and> answers n = None \<longrightarrow> navigate_tree t cur r = cur) \<and>
   (\<forall>n es. map_of t cur = Some n \<and> answers n = Some es \<longrightarrow>
      (\<forall>i < length es.
          threshold (snd (es ! i)) \<le> r \<and> (\<forall>j < i. \<not> threshold (snd (es ! j)) \<le> r) \<longrightarrow>
          navigate_tree t cur r = next_node (snd (es ! i))) \<and>
      ((\<forall>e \<in> set es. \<not> threshold (snd e) \<le> r) \<longrightarrow> navigate_tree t cur r = cur)) \<and>
   navigate_tree get_default_tree ''Math'' (8/10) = ''Math_High'' \<and>
   navigate_tree get_default_tree ''Math_High'' (9/10) = ''HighProg'' \<and>
   navigate_tree get_default_tree ''HighProg'' (7/10) = ''Data Scientist''"
proof (intro conjI allI impI)
  assume "map_of t cur = None"
  thus "navigate_tree t cur r = cur" by (simp add: navigate_tree_def)
next
  fix n assume "map_of t cur = Some n \<and> answers n = None"
  thus "navigate_tree t cur r = cur" by (simp add: navigate_tree_def)
next
  fix n es i
  assume a: "map_of t cur = Some n \<and> answers n = Some es" and i: "i < length es"
    and m: "threshold (snd (es ! i)) \<le> r \<and> (\<forall>j < i. \<not> threshold (snd (es ! j)) \<le> r)"
  from i m have "first_answer r es = Some (next_node (snd (es ! i)))"
    by (intro first_answer_index) simp_all
  with a show "navigate_tree t cur r = next_node (snd (es ! i))"
    by (simp add: navigate_tree_def)
next
  fix n es
  assume a: "map_of t cur = Some n \<and> answers n = Some es"
    and m: "\<forall>e \<in> set es. \<not> threshold (snd e) \<le> r"
  from m have "first_answer r es = None" by (simp only: first_answer_None)
  with a show "navigate_tree t cur r = cur" by (simp add: navigate_tree_def)
next
  show "navigate_tree get_default_tree ''Math'' (8/10) = ''Math_High''"
    by (simp add: navigate_tree_def get_default_tree_def)
next
  show "navigate_tree get_default_tree ''Math_High'' (9/10) = ''HighProg''"
    by (simp add: navigate_tree_def get_default_tree_def)
next
  show "navigate_tree get_default_tree ''HighProg'' (7/10) = ''Data Scientist''"
    by (simp add: navigate_tree_def get_default_tree_def)
qed

text \<open>
  The rule at the root of the default tree with rating 0.5: the first answer (threshold
  0.7) is not reached, the second (threshold 0.4) is, so the second answer decides although
  the third would match too; and a node outside the tree stays where it is.
\<close>

theorem navigate_tree_first_match_witness:
  "navigate_tree get_default_tree ''Math'' (5/10) = ''Math_Med'' \<and>
   navigate_tree get_default_tree ''Engineer'' (5/10) = ''Engineer'' \<and>
   navigate_tree
     [(''Final'', \<lparr>question = ''none'', answers = None\<rparr>),
      (''Strict'', \<lparr>question = ''one answer'',
         answers = Some [(''high'', \<lparr>threshold = 5/10, next_node = ''Final''\<rparr>)]\<rparr>)]
     ''Final'' (2/10) = ''Final'' \<and>
   navigate_tree
     [(''Final'', \<lparr>question = ''none'', answers = None\<rparr>),
      (''Strict'', \<lparr>question = ''one answer'',
         answers = Some [(''high'', \<lparr>threshold = 5/10, next_node = ''Final''\<rparr>)]\<rparr>)]
     ''Strict'' (2/10) = ''Strict''"
proof -
  let ?n = "snd (get_default_tree ! 0)"
  have n: "map_of get_default_tree ''Math'' = Some ?n" by (rule default_tree_Math)
  have es: "answers ?n = Some [(''high'', \<lparr>threshold = 7/10, next_node = ''Math_High''\<rparr>),
                        (''medium'', \<lparr>threshold = 4/10, next_node = ''Math_Med''\<rparr>),
                        (''low'', \<lparr>threshold = 0, next_node = ''Math_Low''\<rparr>)]"
    by (simp add: get_default_tree_def)
  note rule_here = navigate_tree_first_match [of get_default_tree "''Math''" "5/10"]
  from rule_here n es have
    "\<forall>i < length [(''high'', \<lparr>threshold = 7/10, next_node = ''Math_High''\<rparr>),
                        (''medium'', \<lparr>threshold = 4/10, next_node = ''Math_Med''\<rparr>),
                        (''low'', \<lparr>threshold = (0::rat), next_node = ''Math_Low''\<rparr>)].
          threshold (snd ([(''high'', \<lparr>threshold = 7/10, next_node = ''Math_High''\<rparr>),
                        (''medium'', \<lparr>threshold = 4/10, next_node = ''Math_Med''\<rparr>),
                        (''low'', \<lparr>threshold = 0, next_node = ''Math_Low''\<rparr>)] ! i)) \<le> 5/10 \<and>
          (\<forall>j < i. \<not> threshold (snd ([(''high'', \<lparr>threshold = 7/10, next_node = ''Math_High''\<rparr>),
                        (''medium'', \<lparr>threshold = 4/10, next_node = ''Math_Med''\<rparr>),
                        (''low'', \<lparr>threshold = 0, next_node = ''Math_Low''\<rparr>)] ! j)) \<le> 5/10) \<longrightarrow>
          navigate_tree get_default_tree ''Math'' (5/10) =
            next_node (snd ([(''high'', \<lparr>threshold = 7/10, next_node = ''Math_High''\<rparr>),
                        (''medium'', \<lparr>threshold = 4/10, next_node = ''Math_Med''\<rparr>),
                        (''low'', \<lparr>threshold = 0, next_node = ''Math_Low''\<rparr>)] ! i))"
    by blast
  from this [rule_format, of 1] have a: "navigate_tree get_default_tree ''Math'' (5/10) = ''Math_Med''"
    by simp
  have "map_of get_default_tree ''Engineer'' = None" by (simp add: get_default_tree_def)
  with navigate_tree_first_match [of get_default_tree "''Engineer''" "5/10"]
  have b: "navigate_tree get_default_tree ''Engineer'' (5/10) = ''Engineer''" by blast
  let ?t = "[(''Final'', \<lparr>question = ''none'', answers = None\<rparr>),
      (''Strict'', \<lparr>question = ''one answer'',
         answers = Some [(''high'', \<lparr>threshold = 5/10, next_node = ''Final''\<rparr>)]\<rparr>)]"
  have f: "map_of ?t ''Final'' = Some \<lparr>question = ''none'', answers = None\<rparr> \<and>
           answers \<lparr>question = ''none'', answers = None\<rparr> = None"
    by simp
  with navigate_tree_first_match [of ?t "''Final''" "2/10"]
  have c: "navigate_tree ?t ''Final'' (2/10) = ''Final''" by blast
  have g: "map_of ?t ''Strict'' = Some \<lparr>question = ''one answer'',
         answers = Some [(''high'', \<lparr>threshold = 5/10, next_node = ''Final''\<rparr>)]\<rparr> \<and>
       answers \<lparr>question = ''one answer'',
         answers = Some [(''high'', \<lparr>threshold = 5/10, next_node = ''Final''\<rparr>)]\<rparr>
         = Some [(''high'', \<lparr>threshold = 5/10, next_node = ''Final''\<rparr>)]"
    by simp
  have none: "\<forall>e \<in> set [(''high'', \<lparr>threshold = 5/10, next_node = ''Final''\<rparr>)].
                \<not> threshold (snd e) \<le> (2/10 :: rat)"
    by simp
  from navigate_tree_first_match [of ?t "''Strict''" "2/10"] g none
  have d: "navigate_tree ?t ''Strict'' (2/10) = ''Strict''" by blast
  from a b c d show ?thesis by (intro conjI)
qed

text \<open>
  With an input in [0, 1] the handler records the skill and moves the current node as
  \<open>navigate_tree\<close> says. \<open>navigate_tree\<close> itself makes no check of the range: called
  with 1.5 at the root it moves on, and with a negative rating it stays.
\<close>

lemma process_answer_in_range:
  "0 \<le> r \<Longrightarrow> r \<le> 1 \<Longrightarrow>
   process_answer t (Some r) st =
     (Inr (), \<lparr>current_node = navigate_tree t (current_node st) r,
               user_skills = (user_skills st)(extract_skill_name (current_node st) \<mapsto> r)\<rparr>)"
  by (simp add: process_answer_def Let_def)

lemma navigate_tree_unguarded:
  "navigate_tree get_default_tree ''Math'' (15/10) = ''Math_High'' \<and>
   navigate_tree get_default_tree ''Math'' (- 1/10) = ''Math''"
  by (simp add: navigate_tree_def get_default_tree_def)

text \<open>
  C3. For every node and every input outside [0, 1] (or not a number at all) the handler
  stops with the error before anything is recorded: the error is reported and the whole
  assessment state, the current node with it, is unchanged. The range check is made by
  \<open>process_answer\<close>, the only caller of \<open>navigate_tree\<close>, before it calls it.
\<close>

theorem process_answer_out_of_range:
  "r < 0 \<or> 1 < r \<Longrightarrow>
   process_answer t (Some r) st = (Inl ValueError, st) \<and>
   current_node (snd (process_answer t (Some r) st)) = current_node st"
  by (auto simp: process_answer_def)

theorem process_answer_out_of_range_witness:
  "process_answer get_default_tree (Some (3/2)) \<lparr>current_node = ''Math'', user_skills = Map.empty\<rparr>
     = (Inl ValueError, \<lparr>current_node = ''Math'', user_skills = Map.empty\<rparr>) \<and>
   process_answer get_default_tree (Some (-1/10)) \<lparr>current_node = ''Math'', user_skills = Map.empty\<rparr>
     = (Inl ValueError, \<lparr>current_node = ''Math'', user_skills = Map.empty\<rparr>)"
  using process_answer_out_of_range [of "3/2" get_default_tree
          "\<lparr>current_node = ''Math'', user_skills = Map.empty\<rparr>"]
        process_answer_out_of_range [of "-1/10" get_default_tree
          "\<lparr>current_node = ''Math'', user_skills = Map.empty\<rparr>"]
  by simp

section \<open>Rounding\<close>






section \<open>Ranking\<close>

lemma score_course_contract:
  "provider c = Some p \<Longrightarrow>
   score_course c career = Inr (c\<lparr>score := round_ndigits (contract_score c career) 2\<rparr>)"
  by (simp add: score_course_def contract_score_def get_provider_score_def
        calculate_relevance_score_def Let_def list_ex_iff)

lemma score_courses_map:
  "\<forall>c \<in> set cs. provider c \<noteq> None \<Longrightarrow>
   score_courses cs career =
     Inr (map (\<lambda>c. c\<lparr>score := round_ndigits (contract_score c career) 2\<rparr>) cs)"
proof (induction cs)
  case Nil
  then show ?case by simp
next
  case (Cons c cs)
  then obtain p where "provider c = Some p" by auto
  with Cons show ?case by (simp add: score_course_contract)
qed

lemma mset_sorted_reverse: "mset (sorted_reverse k xs) = mset xs"
  by (simp add: sorted_reverse_def)

lemma sorted_sorted_reverse: "sorted_wrt (\<lambda>a b. k a \<ge> k b) (sorted_reverse k xs)"
proof -
  have "sorted (map k (sort_key k (rev xs)))" by (rule sorted_sort_key)
  hence "sorted_wrt (\<lambda>a b. k a \<le> k b) (sort_key k (rev xs))" by (simp add: sorted_map)
  thus ?thesis by (simp add: sorted_reverse_def sorted_wrt_rev)
qed

lemma sorted_reverse_stable:
  "filter (\<lambda>x. k x = v) (sorted_reverse k xs) = filter (\<lambda>x. k x = v) xs"
proof -
  have "filter (\<lambda>x. k x = v) (sort_key k (rev xs)) = filter (\<lambda>x. k x = v) (rev xs)"
    by (rule sort_key_stable)
  thus ?thesis by (simp add: sorted_reverse_def rev_filter [symmetric])
qed

lemma rank_courses_sorted_scored:
  assumes "\<forall>c \<in> set cs. provider c \<noteq> None"
  shows "rank_courses cs user_level career =
           Inr (sorted_reverse score
                  (map (\<lambda>c. c\<lparr>score := round_ndigits (contract_score c career) 2\<rparr>) cs))"
proof (cases "cs = []")
  case True
  then show ?thesis by (simp add: rank_courses_def sorted_reverse_def)
next
  case False
  with assms show ?thesis by (simp add: rank_courses_def score_courses_map)
qed

text \<open>A candidate without the key \<open>provider\<close> makes the ranking raise \<open>KeyError\<close>.\<close>

lemma score_courses_KeyError:
  "\<exists>c \<in> set cs. provider c = None \<Longrightarrow> score_courses cs career = Inl KeyError"
proof (induction cs)
  case Nil
  then show ?case by simp
next
  case (Cons c cs)
  show ?case
  proof (cases "provider c")
    case None
    then show ?thesis by (simp add: score_course_def)
  next
    case (Some p)
    with Cons.prems have "\<exists>c \<in> set cs. provider c = None" by auto
    with Cons.IH Some show ?thesis by (simp add: score_course_contract)
  qed
qed

lemma rank_courses_KeyError:
  "\<exists>c \<in> set cs. provider c = None \<Longrightarrow> rank_courses cs user_level career = Inl KeyError"
  by (auto simp: rank_courses_def score_courses_KeyError)

lemma fallback_providers:
  "\<forall>c \<in> set (get_fallback_courses career lvl). provider c \<noteq> None"
  by (simp add: get_fallback_courses_def)







text \<open>
  C10. For every list of candidates that carry a provider, the ranking returns a list of
  the same length whose elements are the input candidates, each once, with nothing but the
  score field replaced: title, url, provider, level, rating, duration, instructors,
  enrollment count, price, language and search term are those of the input. The empty
  list is returned as the empty list.
\<close>

theorem rank_courses_frame:
  assumes "\<forall>c \<in> set cs. provider c \<noteq> None"
  shows "\<exists>ranked f. rank_courses cs user_level career = Inr ranked \<and>
           mset ranked = mset (map (\<lambda>c. c\<lparr>score := f c\<rparr>) cs) \<and>
           mset (map other_fields ranked) = mset (map other_fields cs) \<and>
           length ranked = length cs \<and>
           (cs = [] \<longrightarrow> ranked = [])"
proof -
  let ?f = "\<lambda>c. round_ndigits (contract_score c career) 2"
  let ?scored = "map (\<lambda>c. c\<lparr>score := ?f c\<rparr>) cs"
  let ?ranked = "sorted_reverse score ?scored"
  have r: "rank_courses cs user_level career = Inr ?ranked"
    using assms by (rule rank_courses_sorted_scored)
  have m: "mset ?ranked = mset ?scored" by (rule mset_sorted_reverse)
  have eq: "map other_fields ?scored = map other_fields cs"
    by (simp add: other_fields_def)
  have "mset (map other_fields ?ranked) = image_mset other_fields (mset ?ranked)"
    by (rule mset_map)
  also have "\<dots> = image_mset other_fields (mset ?scored)"
    by (simp only: m)
  also have "\<dots> = mset (map other_fields ?scored)"
    by (rule mset_map [symmetric])
  also have "\<dots> = mset (map other_fields cs)"
    by (simp only: eq)
  finally have o: "mset (map other_fields ?ranked) = mset (map other_fields cs)" .
  have "size (mset ?ranked) = size (mset ?scored)" by (simp only: m)
  hence l: "length ?ranked = length cs" by simp
  have e: "cs = [] \<longrightarrow> ?ranked = []" by (simp add: sorted_reverse_def)
  show ?thesis
  proof (intro exI conjI)
    show "rank_courses cs user_level career = Inr ?ranked" by (rule r)
    show "mset ?ranked = mset (map (\<lambda>c. c\<lparr>score := ?f c\<rparr>) cs)" by (rule m)
    show "mset (map other_fields ?ranked) = mset (map other_fields cs)" by (rule o)
    show "length ?ranked = length cs" by (rule l)
    show "cs = [] \<longrightarrow> ?ranked = []" by (rule e)
  qed
qed

theorem rank_courses_frame_witness:
  "list_all (\<lambda>c. provider c \<noteq> None)
      [github_course \<lparr>drawn_rating = 4, drawn_hours = 1, drawn_enrollment = 300\<rparr>
                   ''/a/b'' ''learn-x'' ''q'',
       youtube_course \<lparr>drawn_rating = 45/10, drawn_hours = 3, drawn_enrollment = 90000\<rparr>
                   ''abcdefghijk'' ''Learn Engineering: a course'' ''q''] \<and>
   (\<exists>ranked. rank_courses
          [github_course \<lparr>drawn_rating = 4, drawn_hours = 1, drawn_enrollment = 300\<rparr>
                   ''/a/b'' ''learn-x'' ''q'',
           youtube_course \<lparr>drawn_rating = 45/10, drawn_hours = 3, drawn_enrollment = 90000\<rparr>
                   ''abcdefghijk'' ''Learn Engineering: a course'' ''q'']
          ''beginner'' ''Engineer'' = Inr ranked \<and>
      map other_fields ranked =
        map other_fields
          [youtube_course \<lparr>drawn_rating = 45/10, drawn_hours = 3, drawn_enrollment = 90000\<rparr>
                   ''abcdefghijk'' ''Learn Engineering: a course'' ''q'',
           github_course \<lparr>drawn_rating = 4, drawn_hours = 1, drawn_enrollment = 300\<rparr>
                   ''/a/b'' ''learn-x'' ''q''] \<and>
      length ranked = 2)"
proof -
  let ?g = "github_course \<lparr>drawn_rating = 4, drawn_hours = 1, drawn_enrollment = 300\<rparr>
                   ''/a/b'' ''learn-x'' ''q''"
  let ?y = "youtube_course \<lparr>drawn_rating = 45/10, drawn_hours = 3, drawn_enrollment = 90000\<rparr>
                   ''abcdefghijk'' ''Learn Engineering: a course'' ''q''"
  have h: "\<forall>c \<in> set [?g, ?y]. provider c \<noteq> None"
    by (simp add: github_course_def youtube_course_def)
  from rank_courses_frame [OF h, of "''beginner''" "''Engineer''"]
  obtain ranked where r: "rank_courses [?g, ?y] ''beginner'' ''Engineer'' = Inr ranked"
    and l: "length ranked = length [?g, ?y]"
    by blast
  have "map_sum id (map other_fields) (rank_courses [?g, ?y] ''beginner'' ''Engineer'')
          = Inr (map other_fields [?y, ?g])"
    by code_simp
  with r have o: "map other_fields ranked = map other_fields [?y, ?g]" by simp
  from l have l2: "length ranked = 2" by simp
  from h have h': "list_all (\<lambda>c. provider c \<noteq> None) [?g, ?y]"
    by (simp only: list_all_iff)
  show ?thesis by (intro conjI exI [of _ ranked]) (rule h' r o l2)+
qed

section \<open>The cache\<close>







section \<open>The search\<close>

lemma parse_youtube_matches_provider:
  "c \<in> set (parse_youtube_matches rnd i search_term ms) \<Longrightarrow> provider c = Some ''YouTube''"
  by (induction rnd i search_term ms rule: parse_youtube_matches.induct)
     (auto simp: youtube_course_def split: if_splits)

lemma parse_github_matches_provider:
  "c \<in> set (parse_github_matches rnd i search_term ms) \<Longrightarrow> provider c = Some ''GitHub''"
  by (induction rnd i search_term ms rule: parse_github_matches.induct)
     (auto simp: github_course_def split: if_splits)

lemma search_youtube_provider:
  "c \<in> set (search_youtube w career lvl) \<Longrightarrow> provider c \<noteq> None"
  by (auto simp: search_youtube_def parse_youtube_results_def split: option.splits
           dest: parse_youtube_matches_provider)

lemma search_github_provider:
  "c \<in> set (search_github w career lvl) \<Longrightarrow> provider c \<noteq> None"
  by (auto simp: search_github_def parse_github_results_def split: option.splits
           dest: parse_github_matches_provider)

lemma gather_courses_provider:
  "\<forall>c \<in> set (gather_courses w career lvl). provider c \<noteq> None"
  using fallback_providers [of career lvl]
  by (auto simp: gather_courses_def Let_def dest: search_youtube_provider search_github_provider)

lemma length_parse_youtube_matches:
  "length (parse_youtube_matches rnd i search_term ms) \<le> length ms"
  by (induction rnd i search_term ms rule: parse_youtube_matches.induct) auto

lemma length_parse_github_matches:
  "length (parse_github_matches rnd i search_term ms) \<le> length ms"
  by (induction rnd i search_term ms rule: parse_github_matches.induct) auto

lemma length_concat_bound:
  "(\<And>x. length (f x) \<le> k) \<Longrightarrow> length (concat (map f xs)) \<le> length xs * k"
proof (induction xs)
  case Nil
  then show ?case by simp
next
  case (Cons x xs)
  have "length (f x) \<le> k" by (rule Cons.prems)
  moreover have "length (concat (map f xs)) \<le> length xs * k"
    using Cons.prems by (rule Cons.IH)
  ultimately show ?case by simp
qed

lemma length_search_youtube: "length (search_youtube w career lvl) \<le> 6"
proof -
  let ?f = "\<lambda>search_term. case youtube_matches w search_term of
                            None \<Rightarrow> []
                          | Some matches \<Rightarrow> parse_youtube_results (youtube_draws w search_term) matches search_term"
  have "\<And>x. length (?f x) \<le> 3"
  proof -
    fix x
    show "length (?f x) \<le> 3"
    proof (cases "youtube_matches w x")
      case None
      then show ?thesis by simp
    next
      case (Some ms)
      have "length (parse_youtube_matches (youtube_draws w x) 0 x (take 3 ms)) \<le> length (take 3 ms)"
        by (rule length_parse_youtube_matches)
      with Some show ?thesis by (simp add: parse_youtube_results_def)
    qed
  qed
  hence "length (concat (map ?f (take 2 (get_search_terms (set_iteration w) career lvl))))
           \<le> length (take 2 (get_search_terms (set_iteration w) career lvl)) * 3"
    by (rule length_concat_bound)
  thus ?thesis by (simp add: search_youtube_def)
qed

lemma length_search_github: "length (search_github w career lvl) \<le> 2"
proof -
  let ?f = "\<lambda>search_term. case github_matches w search_term of
                            None \<Rightarrow> []
                          | Some matches \<Rightarrow> parse_github_results (github_draws w search_term) matches search_term"
  have "\<And>x. length (?f x) \<le> 2"
  proof -
    fix x
    show "length (?f x) \<le> 2"
    proof (cases "github_matches w x")
      case None
      then show ?thesis by simp
    next
      case (Some ms)
      have "length (parse_github_matches (github_draws w x) 0 x (take 2 ms)) \<le> length (take 2 ms)"
        by (rule length_parse_github_matches)
      with Some show ?thesis by (simp add: parse_github_results_def)
    qed
  qed
  hence "length (concat (map ?f (take 1 (get_search_terms (set_iteration w) career lvl))))
           \<le> length (take 1 (get_search_terms (set_iteration w) career lvl)) * 2"
    by (rule length_concat_bound)
  thus ?thesis by (simp add: search_github_def)
qed

text \<open>The two providers never give 20 courses, so the fallback courses are always added.\<close>

lemma gather_courses_always_fallback:
  "gather_courses w career lvl =
     search_youtube w career lvl @ search_github w career lvl @ get_fallback_courses career lvl"
  using length_search_youtube [of w career lvl] length_search_github [of w career lvl]
  by (simp add: gather_courses_def Let_def)

lemma search_courses_miss:
  assumes "snd (cache_lookup w cache (career @ ''_'' @ user_level)) = None"
  shows "fst (search_courses w career user_level cache) =
           map_sum id (take 5) (rank_courses (gather_courses w career user_level) user_level career)"
proof -
  obtain c' where "cache_lookup w cache (career @ ''_'' @ user_level) = (c', None)"
    using assms by (cases "cache_lookup w cache (career @ ''_'' @ user_level)") simp
  thus ?thesis by (simp add: search_courses_def Let_def split: sum.splits)
qed

text \<open>
  C5. On a search that misses the cache: when the pool gathered from the two providers has
  fewer than 20 courses, the two fallback courses are appended to it before the ranking;
  when both providers contribute nothing, the search succeeds and returns exactly the two
  fallback courses, scored and in descending order of score; and in every case the search
  returns a list, never an error.
\<close>

theorem search_courses_fallback:
  assumes "snd (cache_lookup w cache (career @ ''_'' @ user_level)) = None"
  shows "(length (search_youtube w career user_level @ search_github w career user_level) < 20 \<longrightarrow>
            gather_courses w career user_level =
              (search_youtube w career user_level @ search_github w career user_level)
                @ get_fallback_courses career user_level) \<and>
         (search_youtube w career user_level = [] \<and> search_github w career user_level = [] \<longrightarrow>
            (\<exists>top. fst (search_courses w career user_level cache) = Inr top \<and>
                   length top = 2 \<and>
                   mset top =
                     mset (map (\<lambda>c. c\<lparr>score := round_ndigits (contract_score c career) 2\<rparr>)
                             (get_fallback_courses career user_level)) \<and>
                   sorted_wrt (\<lambda>a b. score a \<ge> score b) top)) \<and>
         (\<exists>top. fst (search_courses w career user_level cache) = Inr top)"
proof (intro conjI impI)
  assume "length (search_youtube w career user_level @ search_github w career user_level) < 20"
  thus "gather_courses w career user_level =
          (search_youtube w career user_level @ search_github w career user_level)
            @ get_fallback_courses career user_level"
    by (simp add: gather_courses_def Let_def)
next
  assume e: "search_youtube w career user_level = [] \<and> search_github w career user_level = []"
  let ?fb = "get_fallback_courses career user_level"
  let ?scored = "map (\<lambda>c. c\<lparr>score := round_ndigits (contract_score c career) 2\<rparr>) ?fb"
  let ?ranked = "sorted_reverse score ?scored"
  from e have g: "gather_courses w career user_level = ?fb"
    by (simp add: gather_courses_def Let_def)
  have r: "rank_courses ?fb user_level career = Inr ?ranked"
    using fallback_providers by (rule rank_courses_sorted_scored)
  have m: "mset ?ranked = mset ?scored" by (rule mset_sorted_reverse)
  hence "size (mset ?ranked) = size (mset ?scored)" by (simp only:)
  hence l: "length ?ranked = 2" by (simp add: get_fallback_courses_def)
  hence t: "take 5 ?ranked = ?ranked" by simp
  have s: "sorted_wrt (\<lambda>a b. score a \<ge> score b) ?ranked" by (rule sorted_sorted_reverse)
  have "fst (search_courses w career user_level cache) = Inr ?ranked"
    using search_courses_miss [OF assms] g r t by simp
  with l m s show "\<exists>top. fst (search_courses w career user_level cache) = Inr top \<and>
                   length top = 2 \<and> mset top = mset ?scored \<and>
                   sorted_wrt (\<lambda>a b. score a \<ge> score b) top"
    by blast
next
  have "rank_courses (gather_courses w career user_level) user_level career =
          Inr (sorted_reverse score
                 (map (\<lambda>c. c\<lparr>score := round_ndigits (contract_score c career) 2\<rparr>)
                    (gather_courses w career user_level)))"
    using gather_courses_provider by (rule rank_courses_sorted_scored)
  with search_courses_miss [OF assms]
  show "\<exists>top. fst (search_courses w career user_level cache) = Inr top" by simp
qed

text \<open>With no provider reachable and an empty store, the search for Engineer courses
  returns the two fallback courses, with scores 11.75 and 11.55.\<close>

theorem search_courses_fallback_witness:
  "snd (cache_lookup (offline_world 0) Map.empty (''Engineer'' @ ''_'' @ ''beginner'')) = None \<and>
   search_youtube (offline_world 0) ''Engineer'' ''beginner'' = [] \<and>
   search_github (offline_world 0) ''Engineer'' ''beginner'' = [] \<and>
   (\<exists>top. fst (search_courses (offline_world 0) ''Engineer'' ''beginner'' Map.empty) = Inr top \<and>
          length top = 2 \<and> map score top = [1175/100, 1155/100] \<and>
          map other_fields top = map other_fields (get_fallback_courses ''Engineer'' ''beginner''))"
proof -
  have miss: "snd (cache_lookup (offline_world 0) Map.empty (''Engineer'' @ ''_'' @ ''beginner'')) = None"
    by (simp add: cache_lookup_def is_cache_too_old_def is_cache_valid_def)
  have y: "search_youtube (offline_world 0) ''Engineer'' ''beginner'' = []"
    by (simp add: search_youtube_def offline_world_def)
  have g: "search_github (offline_world 0) ''Engineer'' ''beginner'' = []"
    by (simp add: search_github_def offline_world_def)
  from search_courses_fallback [OF miss] y g
  obtain top where t: "fst (search_courses (offline_world 0) ''Engineer'' ''beginner'' Map.empty) = Inr top"
    and l: "length top = 2"
    by blast
  have "fst (search_courses (offline_world 0) ''Engineer'' ''beginner'' Map.empty) =
          map_sum id (take 5)
            (rank_courses (get_fallback_courses ''Engineer'' ''beginner'') ''beginner'' ''Engineer'')"
    using search_courses_miss [OF miss] y g by (simp add: gather_courses_def Let_def)
  with t have eq: "map_sum id (take 5)
            (rank_courses (get_fallback_courses ''Engineer'' ''beginner'') ''beginner'' ''Engineer'')
          = Inr top"
    by simp
  have "map_sum id (\<lambda>cs. map score (take 5 cs))
            (rank_courses (get_fallback_courses ''Engineer'' ''beginner'') ''beginner'' ''Engineer'')
          = Inr [1175/100, 1155/100]"
    by code_simp
  with eq have sc: "map score top = [1175/100, 1155/100]"
    by (cases "rank_courses (get_fallback_courses ''Engineer'' ''beginner'') ''beginner'' ''Engineer''")
       auto
  have "map_sum id (\<lambda>cs. map other_fields (take 5 cs))
            (rank_courses (get_fallback_courses ''Engineer'' ''beginner'') ''beginner'' ''Engineer'')
          = Inr (map other_fields (get_fallback_courses ''Engineer'' ''beginner''))"
    by code_simp
  with eq have o: "map other_fields top = map other_fields (get_fallback_courses ''Engineer'' ''beginner'')"
    by (cases "rank_courses (get_fallback_courses ''Engineer'' ''beginner'') ''beginner'' ''Engineer''")
       auto
  show ?thesis by (intro conjI exI [of _ top]) (rule miss y g t l sc o)+
qed

section \<open>The relevance filter of the parsers\<close>

lemma parse_youtube_matches_filter:
  "map (\<lambda>c. (url c, title c)) (parse_youtube_matches rnd i search_term ms) =
   map (\<lambda>(video_id, t). (''https://www.youtube.com/watch?v='' @ video_id, Some (clean_title t)))
       (filter (\<lambda>(video_id, t). length t > 15 \<and> (\<exists>k \<in> set youtube_keywords. sublist k (lower t))) ms)"
proof (induction ms arbitrary: i)
  case Nil
  then show ?case by simp
next
  case (Cons m ms)
  obtain video_id t where m: "m = (video_id, t)" by (cases m)
  show ?case
  proof (cases "length t > 15 \<and> (\<exists>k \<in> set youtube_keywords. sublist k (lower t))")
    case True
    with m Cons.IH [of "Suc i"] show ?thesis by (auto simp: youtube_course_def list_ex_iff)
  next
    case False
    with m Cons.IH [of i] show ?thesis by (auto simp: list_ex_iff)
  qed
qed

lemma parse_github_matches_filter:
  "map (\<lambda>c. (url c, title c)) (parse_github_matches rnd i search_term ms) =
   map (\<lambda>(repo_path, t). (''https://github.com'' @ repo_path, Some (''GitHub: '' @ t)))
       (filter (\<lambda>(repo_path, t). \<exists>k \<in> set github_keywords. sublist k (lower t)) ms)"
proof (induction ms arbitrary: i)
  case Nil
  then show ?case by simp
next
  case (Cons m ms)
  obtain repo_path t where m: "m = (repo_path, t)" by (cases m)
  show ?case
  proof (cases "\<exists>k \<in> set github_keywords. sublist k (lower t)")
    case True
    with m Cons.IH [of "Suc i"] show ?thesis by (auto simp: github_course_def list_ex_iff)
  next
    case False
    with m Cons.IH [of i] show ?thesis by (auto simp: list_ex_iff)
  qed
qed

text \<open>
  C6, as the parsers have it. Of the first 3 pairs found in a video page, the parser keeps
  exactly those whose extracted title is longer than 15 characters and, lower-cased,
  contains one of tutorial, course, learn, guide, introduction. Of the first 2 pairs found
  in a repository page, the parser keeps exactly those whose extracted title, lower-cased,
  contains one of learn, tutorial, course, guide, examples; the repository parser has no
  condition on the length of the title. The courses are built in the order of the pairs.
\<close>

theorem parse_results_filter:
  "map (\<lambda>c. (url c, title c)) (parse_youtube_results rnd matches search_term) =
     map (\<lambda>(video_id, t). (''https://www.youtube.com/watch?v='' @ video_id, Some (clean_title t)))
       (filter (\<lambda>(video_id, t). length t > 15 \<and> (\<exists>k \<in> set youtube_keywords. sublist k (lower t)))
          (take 3 matches)) \<and>
   map (\<lambda>c. (url c, title c)) (parse_github_results rnd' matches' search_term') =
     map (\<lambda>(repo_path, t). (''https://github.com'' @ repo_path, Some (''GitHub: '' @ t)))
       (filter (\<lambda>(repo_path, t). \<exists>k \<in> set github_keywords. sublist k (lower t))
          (take 2 matches'))"
  by (simp only: parse_youtube_results_def parse_github_results_def
        parse_youtube_matches_filter parse_github_matches_filter)

theorem parse_results_filter_witness:
  "map title (parse_youtube_results (youtube_draws (offline_world 0) ''q'')
        [(''aaaaaaaaaaa'', ''Learn Python''),
         (''bbbbbbbbbbb'', ''Python: full COURSE (2024)''),
         (''ccccccccccc'', ''Funny cats compilation''),
         (''ddddddddddd'', ''Complete Python tutorial'')] ''q'')
     = [Some ''Python full COURSE 2024''] \<and>
   map title (parse_github_results (github_draws (offline_world 0) ''q'')
        [(''/a/learn'', ''learn''), (''/b/dotfiles'', ''dotfiles''), (''/c/course'', ''course'')] ''q'')
     = [Some ''GitHub: learn'']"
proof -
  let ?ym = "[(''aaaaaaaaaaa'', ''Learn Python''),
         (''bbbbbbbbbbb'', ''Python: full COURSE (2024)''),
         (''ccccccccccc'', ''Funny cats compilation''),
         (''ddddddddddd'', ''Complete Python tutorial'')]"
  let ?gm = "[(''/a/learn'', ''learn''), (''/b/dotfiles'', ''dotfiles''), (''/c/course'', ''course'')]"
  note inst = parse_results_filter [of "youtube_draws (offline_world 0) ''q''" ?ym "''q''"
                "github_draws (offline_world 0) ''q''" ?gm "''q''"]
  have y: "map (\<lambda>(video_id, t). (''https://www.youtube.com/watch?v='' @ video_id, Some (clean_title t)))
       (filter (\<lambda>(video_id, t). length t > 15 \<and> (\<exists>k \<in> set youtube_keywords. sublist k (lower t)))
          (take 3 ?ym)) = [(''https://www.youtube.com/watch?v=bbbbbbbbbbb'', Some ''Python full COURSE 2024'')]"
    by code_simp
  have g: "map (\<lambda>(repo_path, t). (''https://github.com'' @ repo_path, Some (''GitHub: '' @ t)))
       (filter (\<lambda>(repo_path, t). \<exists>k \<in> set github_keywords. sublist k (lower t))
          (take 2 ?gm)) = [(''https://github.com/a/learn'', Some ''GitHub: learn'')]"
    by code_simp
  from inst y have "map (\<lambda>c. (url c, title c))
      (parse_youtube_results (youtube_draws (offline_world 0) ''q'') ?ym ''q'')
      = [(''https://www.youtube.com/watch?v=bbbbbbbbbbb'', Some ''Python full COURSE 2024'')]"
    by simp
  hence "map snd (map (\<lambda>c. (url c, title c))
      (parse_youtube_results (youtube_draws (offline_world 0) ''q'') ?ym ''q''))
      = [Some ''Python full COURSE 2024'']"
    by (simp only: list.map snd_conv)
  hence 1: "map title (parse_youtube_results (youtube_draws (offline_world 0) ''q'') ?ym ''q'')
      = [Some ''Python full COURSE 2024'']"
    by (simp add: comp_def)
  from inst g have "map (\<lambda>c. (url c, title c))
      (parse_github_results (github_draws (offline_world 0) ''q'') ?gm ''q'')
      = [(''https://github.com/a/learn'', Some ''GitHub: learn'')]"
    by simp
  hence "map snd (map (\<lambda>c. (url c, title c))
      (parse_github_results (github_draws (offline_world 0) ''q'') ?gm ''q''))
      = [Some ''GitHub: learn'']"
    by (simp only: list.map snd_conv)
  hence 2: "map title (parse_github_results (github_draws (offline_world 0) ''q'') ?gm ''q'')
      = [Some ''GitHub: learn'']"
    by (simp add: comp_def)
  from 1 2 show ?thesis by (rule conjI)
qed

text \<open>
  The repository parser keeps the title \<open>learn\<close>, of 5 characters, which the length
  condition of the video parser (more than 15 characters) rejects: the same pair is
  dropped by the video parser.
\<close>

theorem parse_github_no_length_check:
  "parse_github_results (github_draws (offline_world 0) ''q'') [(''/a/learn'', ''learn'')] ''q''
     = [github_course (github_draws (offline_world 0) ''q'' 0) ''/a/learn'' ''learn'' ''q''] \<and>
   \<not> length ''learn'' > 15 \<and>
   parse_youtube_results (youtube_draws (offline_world 0) ''q'') [(''/a/learn'', ''learn'')] ''q'' = []"
  by (simp add: parse_github_results_def parse_youtube_results_def github_keywords_def
        youtube_keywords_def lower_def lower_char_def is_upper_def sublist_code)

section \<open>Search terms\<close>

lemma set_iteration_ok_remdups: "set_iteration_ok remdups"
  by (simp add: set_iteration_ok_def)

lemma set_iteration_ok_rev_remdups: "set_iteration_ok (rev \<circ> remdups)"
  by (simp add: set_iteration_ok_def)

lemma combine_terms_no_level: "combine_terms base_terms [] = take 2 base_terms"
  by (induction "take 2 base_terms") (simp_all add: combine_terms_def concat_map_singleton)

lemma set_combine_terms_single:
  "set (combine_terms [b] level_terms) =
     insert b ((\<lambda>level_term. b @ '' '' @ level_term) ` set (take 1 level_terms))"
  by (auto simp: combine_terms_def)

text \<open>
  C7, as the function has it. Whatever order the interpreter iterates sets in, two calls
  with the same career and level return the same queries as a set, and the list returned
  has no duplicates. For a career that is not in the table the queries are the lower-cased
  career label alone and that label followed by the first phrase of the level; for a level
  that is not in the table the queries are the first two base phrases, with no level
  phrase. The order of the list is the iteration order of the set and is not fixed by the
  tables.
\<close>

theorem get_search_terms_elements:
  assumes "set_iteration_ok s1" and "set_iteration_ok s2"
  shows "set (get_search_terms s1 career lvl) = set (get_search_terms s2 career lvl) \<and>
         distinct (get_search_terms s1 career lvl) \<and>
         (map_of career_keywords career = None \<longrightarrow>
            set (get_search_terms s1 career lvl) =
              insert (lower career)
                ((\<lambda>level_term. lower career @ '' '' @ level_term) `
                   set (take 1 (case map_of level_keywords lvl of Some ts \<Rightarrow> ts | None \<Rightarrow> [])))) \<and>
         (map_of level_keywords lvl = None \<longrightarrow>
            set (get_search_terms s1 career lvl) =
              set (take 2 (case map_of career_keywords career of
                             Some ts \<Rightarrow> ts | None \<Rightarrow> [lower career])))"
proof -
  from assms have 1: "\<And>xs. set (s1 xs) = set xs" and 2: "\<And>xs. set (s2 xs) = set xs"
    and d: "\<And>xs. distinct (s1 xs)"
    by (simp_all add: set_iteration_ok_def)
  show ?thesis
    by (simp add: get_search_terms_def Let_def 1 2 d combine_terms_no_level
          set_combine_terms_single)
qed

theorem get_search_terms_elements_witness:
  "set_iteration_ok remdups \<and> set_iteration_ok (rev \<circ> remdups) \<and>
   set (get_search_terms remdups ''Plumber'' ''beginner'') =
     set (get_search_terms (rev \<circ> remdups) ''Plumber'' ''beginner'') \<and>
   distinct (get_search_terms remdups ''Plumber'' ''beginner'') \<and>
   set (get_search_terms remdups ''Plumber'' ''beginner'') = {''plumber'', ''plumber beginner''} \<and>
   set (get_search_terms remdups ''Engineer'' ''expert'') = {''engineering'', ''mechanical engineering''}"
proof -
  note a = set_iteration_ok_remdups and b = set_iteration_ok_rev_remdups
  have ck: "map_of career_keywords ''Plumber'' = None" by code_simp
  have lk: "map_of level_keywords ''expert'' = None" by code_simp
  have l1: "insert (lower ''Plumber'')
                ((\<lambda>level_term. lower ''Plumber'' @ '' '' @ level_term) `
                   set (take 1 (case map_of level_keywords ''beginner'' of Some ts \<Rightarrow> ts | None \<Rightarrow> [])))
            = {''plumber'', ''plumber beginner''}"
    by code_simp
  have l2: "set (take 2 (case map_of career_keywords ''Engineer'' of
                             Some ts \<Rightarrow> ts | None \<Rightarrow> [lower ''Engineer'']))
            = {''engineering'', ''mechanical engineering''}"
    by code_simp
  note plumber = get_search_terms_elements [OF a b, of "''Plumber''" "''beginner''"]
  note engineer = get_search_terms_elements [OF a b, of "''Engineer''" "''expert''"]
  from plumber have p1: "set (get_search_terms remdups ''Plumber'' ''beginner'') =
     set (get_search_terms (rev \<circ> remdups) ''Plumber'' ''beginner'')"
    by (rule conjunct1)
  from plumber have p2: "distinct (get_search_terms remdups ''Plumber'' ''beginner'')"
    by blast
  from plumber ck have "set (get_search_terms remdups ''Plumber'' ''beginner'') =
      insert (lower ''Plumber'')
                ((\<lambda>level_term. lower ''Plumber'' @ '' '' @ level_term) `
                   set (take 1 (case map_of level_keywords ''beginner'' of Some ts \<Rightarrow> ts | None \<Rightarrow> [])))"
    by blast
  hence p3: "set (get_search_terms remdups ''Plumber'' ''beginner'') = {''plumber'', ''plumber beginner''}"
    by (simp only: l1)
  from engineer lk have "set (get_search_terms remdups ''Engineer'' ''expert'') =
      set (take 2 (case map_of career_keywords ''Engineer'' of
                             Some ts \<Rightarrow> ts | None \<Rightarrow> [lower ''Engineer'']))"
    by blast
  hence q: "set (get_search_terms remdups ''Engineer'' ''expert'') = {''engineering'', ''mechanical engineering''}"
    by (simp only: l2)
  show ?thesis by (intro conjI) (rule a b p1 p2 p3 q)+
qed

text \<open>
  Two iteration orders that both list each element once give the queries for Engineer at
  level beginner in different orders: the order of the list depends on the interpreter's
  set, not on the tables alone.
\<close>

theorem get_search_terms_order_not_fixed:
  "set_iteration_ok remdups \<and> set_iteration_ok (rev \<circ> remdups) \<and>
   get_search_terms remdups ''Engineer'' ''beginner'' \<noteq>
     get_search_terms (rev \<circ> remdups) ''Engineer'' ''beginner'' \<and>
   take 1 (get_search_terms remdups ''Engineer'' ''beginner'') \<noteq>
     take 1 (get_search_terms (rev \<circ> remdups) ''Engineer'' ''beginner'')"
proof -
  have "get_search_terms remdups ''Engineer'' ''beginner'' \<noteq>
     get_search_terms (rev \<circ> remdups) ''Engineer'' ''beginner''"
    by code_simp
  moreover have "take 1 (get_search_terms remdups ''Engineer'' ''beginner'') \<noteq>
     take 1 (get_search_terms (rev \<circ> remdups) ''Engineer'' ''beginner'')"
    by code_simp
  ultimately show ?thesis
    using set_iteration_ok_remdups set_iteration_ok_rev_remdups by simp
qed

section \<open>Cleaning titles\<close>

lemma set_strip: "c \<in> set (strip s) \<Longrightarrow> c \<in> set s"
proof -
  assume "c \<in> set (strip s)"
  hence "c \<in> set (dropWhile is_space (rev (dropWhile is_space s)))"
    by (simp add: strip_def)
  hence "c \<in> set (rev (dropWhile is_space s))" by (rule set_dropWhileD)
  hence "c \<in> set (dropWhile is_space s)" by simp
  thus "c \<in> set s" by (rule set_dropWhileD)
qed

lemma set_sub_space_runs:
  "c \<in> set (sub_space_runs in_run s) \<Longrightarrow> c = CHR '' '' \<or> (c \<in> set s \<and> \<not> is_space c)"
  by (induction in_run s rule: sub_space_runs.induct) (auto split: if_splits)

lemma set_sub_special: "c \<in> set (sub_special s) \<Longrightarrow> is_word c \<or> is_space c"
  by (auto simp: sub_special_def is_space_def)

text \<open>What the cleaning does ensure: a character of a cleaned title is a word character
  (a letter, a digit or the underscore) or the space.\<close>

lemma clean_title_chars:
  assumes "c \<in> set (clean_title t)"
  shows "is_word c \<or> c = CHR '' ''"
proof -
  from assms have "c \<in> set (strip (sub_space_runs False (sub_special t)))"
    by (simp add: clean_title_def Let_def)
  hence "c \<in> set (sub_space_runs False (sub_special t))" by (rule set_strip)
  hence "c = CHR '' '' \<or> (c \<in> set (sub_special t) \<and> \<not> is_space c)"
    by (rule set_sub_space_runs)
  thus ?thesis using set_sub_special by blast
qed

text \<open>
  C8 fails on the underscore: it is neither alphanumeric nor white space, and the pattern
  \<open>\w\<close> accepts it, so it is not replaced by a space and survives in the cleaned title.
\<close>

theorem clean_title_keeps_underscore:
  "clean_title ''learn_python (2024)!'' = ''learn_python 2024'' \<and>
   clean_title ''a_b'' = ''a_b'' \<and>
   \<not> is_alnum (CHR ''_'') \<and> \<not> is_space (CHR ''_'')"
  by code_simp

end
